theory Spec2Isabelle
  imports Complex_Main "HOL-Library.Sublist"
begin

section \<open>JSON values\<close>

text \<open>
  The handlers of \<^verbatim>\<open>main.py\<close> return Python dict literals that the framework
  serialises to JSON. A dict literal is an association list in the order the source
  writes its keys; Python's unbounded \<^verbatim>\<open>int\<close> is \<^typ>\<open>int\<close>; \<^verbatim>\<open>None\<close> is
  \<open>JNull\<close>. The two float literals of the source (0.95 and 0.87) are never computed
  with: they are carried as the decimal number the literal denotes. A Python
  \<^verbatim>\<open>str\<close> is a \<^typ>\<open>string\<close>; the handlers only concatenate and compare with the
  empty string, so the character type plays no role.
\<close>

datatype json =
    JNull
  | JInt int
  | JFloat real
  | JStr string
  | JArr "json list"
  | JObj "(string \<times> json) list"

text \<open>\<^verbatim>\<open>obj[key]\<close> on a JSON value: \<open>None\<close> when the value is no object or lacks the key.\<close>

fun jget :: "string \<Rightarrow> json \<Rightarrow> json option" where
  "jget k (JObj kvs) = map_of kvs k"
| "jget k _ = None"

text \<open>A value of type \<^verbatim>\<open>str | None\<close> as JSON.\<close>

definition json_of_opt_str :: "string option \<Rightarrow> json" where
  "json_of_opt_str s = (case s of None \<Rightarrow> JNull | Some v \<Rightarrow> JStr v)"

section \<open>Python built-ins used by the handlers\<close>

text \<open>The decimal digit \<open>d\<close> (for \<open>d < 10\<close>) as a character.\<close>

definition digit_char :: "nat \<Rightarrow> char" where
  "digit_char d = ''0123456789'' ! d"

text \<open>The decimal digits of a natural number, most significant first.\<close>

fun str_nat :: "nat \<Rightarrow> string" where
  "str_nat n = (if n < 10 then [digit_char n] else str_nat (n div 10) @ [digit_char (n mod 10)])"

declare str_nat.simps [simp del]

text \<open>
  The decimal numeral of an integer: a minus sign for a negative number, then the digits
  of its absolute value. This is what a client writes into a URL, and what \<^verbatim>\<open>str(n)\<close>
  returns when it returns.
\<close>

definition decimal :: "int \<Rightarrow> string" where
  "decimal n = (if n < 0 then CHR ''-'' # str_nat (nat (- n)) else str_nat (nat n))"

text \<open>The exceptions that the built-ins used by the handlers raise.\<close>

datatype py_error = ValueError

text \<open>
  CPython's limit on the number of digits of an integer that is converted to or from a
  decimal string, \<^verbatim>\<open>sys.int_info.default_max_str_digits\<close>. The source does not change
  it.
\<close>

definition default_max_str_digits :: nat where
  "default_max_str_digits = 4300"

text \<open>
  \<^verbatim>\<open>str(n)\<close> for a Python \<^verbatim>\<open>int\<close>, which is what \<^verbatim>\<open>f"{n}"\<close> interpolates: the
  decimal numeral of \<open>n\<close>, or \<^verbatim>\<open>ValueError\<close> when \<open>n\<close> has more digits (the sign not
  counted) than the limit.
\<close>

definition str_int :: "int \<Rightarrow> py_error + string" where
  "str_int n =
     (if default_max_str_digits < length (str_nat (nat \<bar>n\<bar>)) then Inl ValueError
      else Inr (decimal n))"

text \<open>
  \<^verbatim>\<open>s or d\<close> for \<^verbatim>\<open>s: str | None\<close>: Python's \<^verbatim>\<open>or\<close> yields its right operand
  when the left one is falsy, which for this type is \<^verbatim>\<open>None\<close> and the empty string.
\<close>

definition py_or :: "string option \<Rightarrow> string \<Rightarrow> string" where
  "py_or s d = (case s of None \<Rightarrow> d | Some v \<Rightarrow> if v = [] then d else v)"

text \<open>The apostrophe that the search titles put around the query.\<close>

definition apostrophe :: char where
  "apostrophe = CHR 0x27"

section \<open>The handlers of main.py\<close>

text \<open>\<^verbatim>\<open>get_welcome_message()\<close>, the handler of \<^verbatim>\<open>GET /\<close>.\<close>

definition get_welcome_message :: json where
  "get_welcome_message = JObj [
     (''message'', JStr ''Welcome to the Task Management API!''),
     (''version'', JStr ''1.0.0''),
     (''docs'', JStr ''/docs''),
     (''status'', JStr ''operational'')]"

text \<open>
  \<^verbatim>\<open>get_task_by_id(task_id: int)\<close>, the handler of \<^verbatim>\<open>GET /tasks/{task_id}\<close>. The
  dict literal is evaluated in the order it is written; each of the two f-strings
  converts \<^verbatim>\<open>task_id\<close> with \<^verbatim>\<open>str\<close>, and an exception raised there leaves the
  handler.
\<close>

definition get_task_by_id :: "int \<Rightarrow> py_error + json" where
  "get_task_by_id task_id =
     (case str_int task_id of
        Inl e \<Rightarrow> Inl e
      | Inr in_title \<Rightarrow>
          (case str_int task_id of
             Inl e \<Rightarrow> Inl e
           | Inr in_description \<Rightarrow>
               Inr (JObj [
                 (''task_id'', JInt task_id),
                 (''title'', JStr (''Task #'' @ in_title)),
                 (''description'', JStr (''This is task number '' @ in_description)),
                 (''status'', JStr ''pending''),
                 (''priority'', JStr ''medium''),
                 (''created_at'', JStr ''2026-01-09T00:00:00Z'')])))"

text \<open>
  \<^verbatim>\<open>search_tasks(q: str, limit: int = 10, offset: int = 0, status: str | None = None)\<close>,
  the handler of \<^verbatim>\<open>GET /search\<close>. The defaults of the signature are applied by the
  parameter binding (\<open>bind_search\<close> below), as the framework applies them before the call.
\<close>

definition search_tasks :: "string \<Rightarrow> int \<Rightarrow> int \<Rightarrow> string option \<Rightarrow> json" where
  "search_tasks q limit offset status = JObj [
     (''query'', JStr q),
     (''filters'', JObj [
        (''status'', json_of_opt_str status),
        (''limit'', JInt limit),
        (''offset'', JInt offset)]),
     (''total_results'', JInt 42),
     (''results'', JArr [
        JObj [
          (''task_id'', JInt (offset + 1)),
          (''title'', JStr (''Task matching '' @ [apostrophe] @ q @ [apostrophe])),
          (''status'', JStr (py_or status ''pending'')),
          (''relevance_score'', JFloat 0.95)],
        JObj [
          (''task_id'', JInt (offset + 2)),
          (''title'', JStr (''Another task for '' @ [apostrophe] @ q @ [apostrophe])),
          (''status'', JStr (py_or status ''in_progress'')),
          (''relevance_score'', JFloat 0.87)]])]"

section \<open>Routing and parameter binding\<close>

text \<open>
  Routing, the conversion of path and query literals to the declared parameter types and
  the error responses are done by the web framework that \<^verbatim>\<open>main.py\<close> imports; its
  code is not part of the repository. What the repository fixes is the route table (the
  three decorators, in their order), the parameter declarations of the handlers (names,
  types, which are required, the defaults 10 and 0) and, in \<^verbatim>\<open>tests/test_main.py\<close>,
  the status codes and error types it expects. The definitions of this section put these
  together; each part taken from the specification says so.
\<close>

record request =
  req_path :: string
  req_query :: "string \<rightharpoonup> string"

record response =
  status_code :: nat
  body :: json

text \<open>One entry of the \<^verbatim>\<open>detail\<close> array of a 422 response.\<close>

datatype validation_error = ValidationError (err_type: string) (err_loc: "string list")

definition json_of_error :: "validation_error \<Rightarrow> json" where
  "json_of_error e = JObj [(''type'', JStr (err_type e)), (''loc'', JArr (map JStr (err_loc e)))]"

text \<open>
  Modelled from the spec: the framework's response around a handler's return value, whose
  code is not in the repository. A request that binds "succeed[s] with HTTP 200" and the
  body is what the handler returns.
\<close>

definition ok :: "json \<Rightarrow> response" where
  "ok b = \<lparr>status_code = 200, body = b\<rparr>"

text \<open>
  Modelled from the spec: the framework's response to a validation failure, whose code is
  not in the repository. "Error body shape for all 422s: \<^verbatim>\<open>{"detail": [{"type": <str>, "loc":
  <sequence identifying the offending field>, ...}]}\<close>".
\<close>

definition unprocessable :: "validation_error list \<Rightarrow> response" where
  "unprocessable errs = \<lparr>status_code = 422, body = JObj [(''detail'', JArr (map json_of_error errs))]\<rparr>"

text \<open>
  Modelled from the spec: the framework's response to a path that matches no declared
  route, whose code is not in the repository. "Route-not-found: HTTP 404 for any path not
  matching a declared route"; the spec fixes the status only.
\<close>

definition not_found :: response where
  "not_found = \<lparr>status_code = 404, body = JObj [(''detail'', JStr ''Not Found'')]\<rparr>"

text \<open>
  Modelled from the spec: the framework's response when a handler raises, whose code is
  not in the repository. The spec names the class only ("5xx") and lists no case of it;
  500 is the status of an unhandled exception.
\<close>

definition server_error :: response where
  "server_error = \<lparr>status_code = 500, body = JStr ''Internal Server Error''\<rparr>"

subsection \<open>Integer literals\<close>

text \<open>
  Modelled from the spec: the decimal digits of an integer literal, for \<open>parse_int\<close>
  below.
\<close>

definition is_digit :: "char \<Rightarrow> bool" where
  "is_digit c = (48 \<le> (of_char c :: nat) \<and> (of_char c :: nat) \<le> 57)"

text \<open>Modelled from the spec: the value of a decimal digit, for \<open>parse_int\<close> below.\<close>

definition digit_val :: "char \<Rightarrow> nat" where
  "digit_val c = of_char c - 48"

text \<open>
  Modelled from the spec: an unsigned integer literal, one or more decimal digits, for
  \<open>parse_int\<close> below.
\<close>

definition parse_nat :: "string \<Rightarrow> nat option" where
  "parse_nat s =
     (if s \<noteq> [] \<and> list_all is_digit s
      then Some (foldl (\<lambda>a c. 10 * a + digit_val c) 0 s) else None)"

text \<open>
  Modelled from the spec: the framework's conversion of a literal to an \<^verbatim>\<open>int\<close>
  parameter, whose code is not in the repository. "\<^verbatim>\<open>task_id\<close> must parse as a signed integer; any
  non-integer literal (including floats, UUIDs, words, or strings with embedded
  punctuation) fails parameter-binding": an optional sign followed by one or more decimal
  digits, and nothing else.
\<close>

definition parse_int :: "string \<Rightarrow> int option" where
  "parse_int s =
     (case s of
        [] \<Rightarrow> None
      | c # cs \<Rightarrow>
          if c = CHR ''-'' then map_option (\<lambda>n. - int n) (parse_nat cs)
          else if c = CHR ''+'' then map_option int (parse_nat cs)
          else map_option int (parse_nat s))"

subsection \<open>Binding the declared parameters\<close>

text \<open>
  Modelled from the spec: binding of the path parameter \<^verbatim>\<open>task_id: int\<close>. A literal
  that is no integer "must yield HTTP 422 with a body containing a \<^verbatim>\<open>detail\<close> array
  whose first element has \<^verbatim>\<open>type == "int_parsing"\<close> and a \<^verbatim>\<open>loc\<close> referencing
  \<^verbatim>\<open>task_id\<close>".
\<close>

definition path_int :: "string \<Rightarrow> string \<Rightarrow> validation_error + int" where
  "path_int name raw =
     (case parse_int raw of
        None \<Rightarrow> Inl (ValidationError ''int_parsing'' [''path'', name])
      | Some n \<Rightarrow> Inr n)"

text \<open>
  Modelled from the spec: binding of a required query parameter of type \<^verbatim>\<open>str\<close>
  (\<^verbatim>\<open>q: str\<close>). "its absence yields HTTP 422 with \<^verbatim>\<open>detail[0].type == "missing"\<close>
  referencing \<^verbatim>\<open>q\<close>"; any supplied string, the empty one included, is accepted.
\<close>

definition query_str_required :: "(string \<rightharpoonup> string) \<Rightarrow> string \<Rightarrow> validation_error + string" where
  "query_str_required qs name =
     (case qs name of
        None \<Rightarrow> Inl (ValidationError ''missing'' [''query'', name])
      | Some v \<Rightarrow> Inr v)"

text \<open>
  Modelled from the spec: binding of an optional query parameter of type \<^verbatim>\<open>int\<close> with
  a default (\<^verbatim>\<open>limit: int = 10\<close>, \<^verbatim>\<open>offset: int = 0\<close>). "non-integer values yield
  422; negative values are accepted without validation".
\<close>

definition query_int :: "(string \<rightharpoonup> string) \<Rightarrow> string \<Rightarrow> int \<Rightarrow> validation_error + int" where
  "query_int qs name dflt =
     (case qs name of
        None \<Rightarrow> Inr dflt
      | Some raw \<Rightarrow>
          (case parse_int raw of
             None \<Rightarrow> Inl (ValidationError ''int_parsing'' [''query'', name])
           | Some n \<Rightarrow> Inr n))"

fun errors_of :: "validation_error + 'a \<Rightarrow> validation_error list" where
  "errors_of (Inl e) = [e]"
| "errors_of (Inr _) = []"

text \<open>
  Modelled from the spec: the framework's binding of the arguments of \<^verbatim>\<open>search_tasks\<close>
  from the query parameters, whose code is not in the repository. It follows the
  handler's signature: \<^verbatim>\<open>q\<close> required, \<^verbatim>\<open>limit\<close> and \<^verbatim>\<open>offset\<close> with their
  defaults 10 and 0, \<^verbatim>\<open>status\<close> "an unvalidated passthrough filter" (\<^verbatim>\<open>None\<close> when
  absent). Errors are reported in the order of the parameters, so that a missing
  \<^verbatim>\<open>q\<close> is \<^verbatim>\<open>detail[0]\<close>.
\<close>

definition bind_search ::
  "(string \<rightharpoonup> string) \<Rightarrow> validation_error list + (string \<times> int \<times> int \<times> string option)" where
  "bind_search qs =
     (let rq = query_str_required qs ''q'';
          rl = query_int qs ''limit'' 10;
          ro = query_int qs ''offset'' 0
      in case (rq, rl, ro) of
           (Inr q, Inr limit, Inr offset) \<Rightarrow> Inr (q, limit, offset, qs ''status'')
         | _ \<Rightarrow> Inl (errors_of rq @ errors_of rl @ errors_of ro))"

subsection \<open>The application\<close>

text \<open>The three routes that \<^verbatim>\<open>main.py\<close> declares, in the order of their decorators.\<close>

datatype route = Root | TaskById string | Search

text \<open>
  Modelled from the spec: the framework's matching of a request path against the route
  table, whose code is not in the repository. \<^verbatim>\<open>/tasks/{task_id}\<close> matches
  \<^verbatim>\<open>/tasks/\<close> followed by one non-empty path segment: "An empty path segment
  (trailing slash with nothing after it) does not match this route".
\<close>

definition match_route :: "string \<Rightarrow> route option" where
  "match_route p =
     (if p = ''/'' then Some Root
      else if take 7 p = ''/tasks/'' \<and> drop 7 p \<noteq> [] \<and> CHR ''/'' \<notin> set (drop 7 p)
        then Some (TaskById (drop 7 p))
      else if p = ''/search'' then Some Search
      else None)"

text \<open>
  Modelled from the spec: \<^verbatim>\<open>app\<close> on a GET request, the framework's dispatch, whose
  code is not in the repository: "an HTTP request router mapping three routes to handler
  functions". A validation failure is "recovered at the request-binding layer before
  handler logic runs"; otherwise the handler of \<^verbatim>\<open>main.py\<close> is called with the bound
  parameters, and an exception that leaves it is answered with \<open>server_error\<close>.
\<close>

definition app :: "request \<Rightarrow> response" where
  "app r =
     (case match_route (req_path r) of
        None \<Rightarrow> not_found
      | Some Root \<Rightarrow> ok get_welcome_message
      | Some (TaskById seg) \<Rightarrow>
          (case path_int ''task_id'' seg of
             Inl e \<Rightarrow> unprocessable [e]
           | Inr task_id \<Rightarrow>
               (case get_task_by_id task_id of
                  Inl e \<Rightarrow> server_error
                | Inr b \<Rightarrow> ok b))
      | Some Search \<Rightarrow>
          (case bind_search (req_query r) of
             Inl errs \<Rightarrow> unprocessable errs
           | Inr (q, limit, offset, status) \<Rightarrow> ok (search_tasks q limit offset status)))"

section \<open>Decimal numerals, integer literals and \<open>str\<close>\<close>

lemma of_char_digit_char:
  assumes "d < 10"
  shows "(of_char (digit_char d) :: nat) = 48 + d"
proof -
  from assms have "d = 0 \<or> d = 1 \<or> d = 2 \<or> d = 3 \<or> d = 4 \<or> d = 5 \<or> d = 6 \<or> d = 7
      \<or> d = 8 \<or> d = 9"
    by arith
  then show ?thesis
    by (elim disjE) (simp_all add: digit_char_def)
qed

lemma is_digit_digit_char: "d < 10 \<Longrightarrow> is_digit (digit_char d)"
  by (simp add: is_digit_def of_char_digit_char)

lemma digit_val_digit_char: "d < 10 \<Longrightarrow> digit_val (digit_char d) = d"
  by (simp add: digit_val_def of_char_digit_char)

lemma str_nat_nonempty: "str_nat n \<noteq> []"
  by (subst str_nat.simps) simp

lemma str_nat_digits: "list_all is_digit (str_nat n)"
proof (induction n rule: str_nat.induct)
  case (1 n)
  show ?case
  proof (cases "n < 10")
    case True
    then show ?thesis
      by (subst str_nat.simps) (simp add: is_digit_digit_char)
  next
    case False
    with 1 show ?thesis
      by (subst str_nat.simps) (simp add: is_digit_digit_char)
  qed
qed

lemma str_nat_value: "foldl (\<lambda>a c. 10 * a + digit_val c) 0 (str_nat n) = n"
proof (induction n rule: str_nat.induct)
  case (1 n)
  show ?case
  proof (cases "n < 10")
    case True
    then show ?thesis
      by (subst str_nat.simps) (simp add: digit_val_digit_char)
  next
    case False
    with 1 show ?thesis
      by (subst str_nat.simps) (simp add: digit_val_digit_char)
  qed
qed

lemma parse_nat_str_nat: "parse_nat (str_nat n) = Some n"
  by (simp add: parse_nat_def str_nat_nonempty str_nat_digits str_nat_value)

lemma is_digit_not_sign: "is_digit c \<Longrightarrow> c \<noteq> CHR ''-'' \<and> c \<noteq> CHR ''+'' \<and> c \<noteq> CHR ''/''"
  by (auto simp: is_digit_def)

lemma str_nat_hd: "\<exists>c cs. str_nat n = c # cs \<and> is_digit c"
  using str_nat_nonempty [of n] str_nat_digits [of n]
  by (cases "str_nat n") auto

text \<open>A decimal numeral is read back by \<open>parse_int\<close>.\<close>

lemma parse_int_decimal: "parse_int (decimal n) = Some n"
proof (cases "n < 0")
  case True
  then show ?thesis
    by (simp add: parse_int_def decimal_def parse_nat_str_nat)
next
  case False
  obtain c cs where s: "str_nat (nat n) = c # cs" and d: "is_digit c"
    using str_nat_hd by blast
  have "parse_nat (c # cs) = Some (nat n)"
    using parse_nat_str_nat [of "nat n"] s by simp
  with False s d is_digit_not_sign [OF d] show ?thesis
    by (simp add: parse_int_def decimal_def)
qed

lemma decimal_nonempty: "decimal n \<noteq> []"
  by (simp add: decimal_def str_nat_nonempty)

lemma decimal_no_slash: "CHR ''/'' \<notin> set (decimal n)"
proof -
  have "\<forall>c \<in> set (str_nat m). c \<noteq> CHR ''/''" for m
    using str_nat_digits [of m] is_digit_not_sign by (auto simp: list_all_iff)
  then show ?thesis
    by (auto simp: decimal_def)
qed

lemma decimal_examples:
  "decimal 0 = ''0'' \<and> decimal (- 1) = ''-1'' \<and> decimal 12345 = ''12345''
   \<and> decimal (- 10) = ''-10''"
  by (simp add: decimal_def str_nat.simps digit_char_def)

text \<open>The number of digits of a natural number, and when \<open>str_int\<close> returns.\<close>

lemma str_nat_length_le: "0 < k \<Longrightarrow> n < 10 ^ k \<Longrightarrow> length (str_nat n) \<le> k"
proof (induction n arbitrary: k rule: str_nat.induct)
  case (1 n)
  show ?case
  proof (cases "n < 10")
    case True
    with 1(2) show ?thesis
      by (subst str_nat.simps) simp
  next
    case False
    obtain j where k: "k = Suc j"
      using 1(2) by (cases k) auto
    have j: "0 < j"
    proof (rule ccontr)
      assume "\<not> 0 < j"
      with k 1(3) False show False by simp
    qed
    have "n div 10 < 10 ^ j"
      using 1(3) k by (simp add: less_mult_imp_div_less mult.commute)
    from 1(1) [OF False j this] False k show ?thesis
      by (subst str_nat.simps) simp
  qed
qed

lemma str_nat_length_gt: "10 ^ k \<le> n \<Longrightarrow> k < length (str_nat n)"
proof (induction n arbitrary: k rule: str_nat.induct)
  case (1 n)
  show ?case
  proof (cases "n < 10")
    case True
    have "k = 0"
    proof (cases k)
      case (Suc j)
      have "(10::nat) \<le> 10 * 10 ^ j" by simp
      with Suc 1(2) True show ?thesis by simp
    qed simp
    with True show ?thesis
      by (subst str_nat.simps) simp
  next
    case False
    show ?thesis
    proof (cases k)
      case 0
      with False show ?thesis
        by (subst str_nat.simps) simp
    next
      case (Suc j)
      with 1(2) have "10 ^ j \<le> n div 10"
        by (simp add: less_eq_div_iff_mult_less_eq mult.commute)
      from 1(1) [OF False this] False Suc show ?thesis
        by (subst str_nat.simps) simp
    qed
  qed
qed

lemma str_int_returns:
  assumes "\<bar>n\<bar> < 10 ^ default_max_str_digits"
  shows "str_int n = Inr (decimal n)"
proof -
  have pos: "0 < default_max_str_digits"
    by (simp add: default_max_str_digits_def)
  have "nat \<bar>n\<bar> < 10 ^ default_max_str_digits"
    using assms by (simp add: nat_less_iff)
  then have "length (str_nat (nat \<bar>n\<bar>)) \<le> default_max_str_digits"
    by (rule str_nat_length_le [OF pos])
  then show ?thesis
    by (simp add: str_int_def)
qed

lemma str_int_raises:
  assumes "10 ^ default_max_str_digits \<le> \<bar>n\<bar>"
  shows "str_int n = Inl ValueError"
proof -
  have "10 ^ default_max_str_digits \<le> nat \<bar>n\<bar>"
    using assms by (simp add: le_nat_iff)
  then have "default_max_str_digits < length (str_nat (nat \<bar>n\<bar>))"
    by (rule str_nat_length_gt)
  then show ?thesis
    by (simp add: str_int_def)
qed

lemma get_task_by_id_returns:
  assumes "\<bar>n\<bar> < 10 ^ default_max_str_digits"
  shows "get_task_by_id n = Inr (JObj [
           (''task_id'', JInt n),
           (''title'', JStr (''Task #'' @ decimal n)),
           (''description'', JStr (''This is task number '' @ decimal n)),
           (''status'', JStr ''pending''),
           (''priority'', JStr ''medium''),
           (''created_at'', JStr ''2026-01-09T00:00:00Z'')])"
  by (simp add: get_task_by_id_def str_int_returns [OF assms])

lemma get_task_by_id_raises:
  assumes "10 ^ default_max_str_digits \<le> \<bar>n\<bar>"
  shows "get_task_by_id n = Inl ValueError"
  by (simp add: get_task_by_id_def str_int_raises [OF assms])

lemma small_in_range: "\<bar>n\<bar> < 10 \<Longrightarrow> \<bar>n\<bar> < (10::int) ^ default_max_str_digits"
proof -
  assume "\<bar>n\<bar> < 10"
  moreover have "(10::int) ^ 1 \<le> 10 ^ default_max_str_digits"
    by (rule power_increasing) (simp_all add: default_max_str_digits_def)
  ultimately show ?thesis by simp
qed

lemma parse_int_examples:
  "parse_int ''12.3'' = None
   \<and> parse_int ''550e8400-e29b-41d4-a716-446655440000'' = None
   \<and> parse_int ''abc'' = None \<and> parse_int ''task_123'' = None
   \<and> parse_int '' '' = None \<and> parse_int ''-'' = None
   \<and> parse_int ''0'' = Some 0 \<and> parse_int ''-1'' = Some (- 1)
   \<and> parse_int ''+42'' = Some 42 \<and> parse_int ''007'' = Some 7"
  by (simp add: parse_int_def parse_nat_def is_digit_def digit_val_def)

section \<open>Requests that reach a handler\<close>

lemma match_route_tasks:
  "seg \<noteq> [] \<Longrightarrow> CHR ''/'' \<notin> set seg \<Longrightarrow> match_route (''/tasks/'' @ seg) = Some (TaskById seg)"
  by (cases seg) (simp_all add: match_route_def)

lemma app_tasks:
  assumes "seg \<noteq> []" and "CHR ''/'' \<notin> set seg"
  shows "app \<lparr>req_path = ''/tasks/'' @ seg, req_query = qs\<rparr> =
     (case parse_int seg of
        None \<Rightarrow> unprocessable [ValidationError ''int_parsing'' [''path'', ''task_id'']]
      | Some n \<Rightarrow>
          (case get_task_by_id n of Inl e \<Rightarrow> server_error | Inr b \<Rightarrow> ok b))"
proof -
  have m: "match_route (req_path \<lparr>req_path = ''/tasks/'' @ seg, req_query = qs\<rparr>)
             = Some (TaskById seg)"
    using match_route_tasks [OF assms] by simp
  show ?thesis
    unfolding app_def m by (simp add: path_int_def split: option.splits)
qed

lemma app_search:
  "app \<lparr>req_path = ''/search'', req_query = qs\<rparr> =
     (case bind_search qs of
        Inl errs \<Rightarrow> unprocessable errs
      | Inr (q, limit, offset, status) \<Rightarrow> ok (search_tasks q limit offset status))"
  by (simp add: app_def match_route_def)

lemma bind_search_valid:
  "qs ''q'' = Some q \<Longrightarrow> query_int qs ''limit'' 10 = Inr limit \<Longrightarrow>
   query_int qs ''offset'' 0 = Inr offset \<Longrightarrow>
   bind_search qs = Inr (q, limit, offset, qs ''status'')"
  by (simp add: bind_search_def query_str_required_def)

lemma app_search_valid:
  "qs ''q'' = Some q \<Longrightarrow> query_int qs ''limit'' 10 = Inr limit \<Longrightarrow>
   query_int qs ''offset'' 0 = Inr offset \<Longrightarrow>
   app \<lparr>req_path = ''/search'', req_query = qs\<rparr> = ok (search_tasks q limit offset (qs ''status''))"
  by (simp add: app_search bind_search_valid)

lemma search_ok_bound:
  assumes "status_code (app \<lparr>req_path = ''/search'', req_query = qs\<rparr>) = 200"
  shows "\<exists>q limit offset. qs ''q'' = Some q
           \<and> app \<lparr>req_path = ''/search'', req_query = qs\<rparr>
               = ok (search_tasks q limit offset (qs ''status''))"
proof (cases "bind_search qs")
  case (Inl errs)
  with assms show ?thesis
    by (simp add: app_search unprocessable_def)
next
  case (Inr args)
  obtain q limit offset status where args: "args = (q, limit, offset, status)"
    by (cases args) auto
  from Inr args have "qs ''q'' = Some q \<and> status = qs ''status''"
    by (auto simp: bind_search_def query_str_required_def Let_def
             split: sum.splits option.splits)
  with Inr args show ?thesis
    by (auto simp: app_search)
qed

section \<open>Properties of the handlers\<close>

text \<open>
  C10. The \<^verbatim>\<open>limit\<close> parameter of \<^verbatim>\<open>search_tasks\<close> reaches nothing but
  \<^verbatim>\<open>filters.limit\<close>: two calls that differ only in \<^verbatim>\<open>limit\<close> agree on
  \<^verbatim>\<open>query\<close>, \<^verbatim>\<open>total_results\<close> and the whole \<^verbatim>\<open>results\<close> sequence, which has
  exactly two records with relevance scores 0.95 and 0.87; \<^verbatim>\<open>filters.limit\<close> is the
  given limit, and the other two filters do not depend on it either.
\<close>

theorem search_limit_only_in_filters:
  "jget ''query'' (search_tasks q limit1 offset status)
     = jget ''query'' (search_tasks q limit2 offset status)
   \<and> jget ''total_results'' (search_tasks q limit1 offset status)
     = jget ''total_results'' (search_tasks q limit2 offset status)
   \<and> jget ''results'' (search_tasks q limit1 offset status)
     = jget ''results'' (search_tasks q limit2 offset status)
   \<and> (\<exists>r1 r2. jget ''results'' (search_tasks q limit1 offset status) = Some (JArr [r1, r2])
        \<and> jget ''relevance_score'' r1 = Some (JFloat 0.95)
        \<and> jget ''relevance_score'' r2 = Some (JFloat 0.87))
   \<and> (\<exists>f. jget ''filters'' (search_tasks q limit1 offset status) = Some f
        \<and> jget ''limit'' f = Some (JInt limit1)
        \<and> jget ''status'' f = Some (json_of_opt_str status)
        \<and> jget ''offset'' f = Some (JInt offset))"
  by (simp add: search_tasks_def)


text \<open>
  C2 (as amended). For every integer \<open>n\<close> of at most 4300 digits, that is with
  \<open>\<bar>n\<bar> < 10 ^ 4300\<close> (positive, negative or zero), \<^verbatim>\<open>GET /tasks/{n}\<close>, the path being
  written with the decimal numeral of \<open>n\<close>, is answered with status 200 and the body
  that \<^verbatim>\<open>get_task_by_id(n)\<close> returns: \<^verbatim>\<open>task_id\<close> is \<open>n\<close>, \<^verbatim>\<open>title\<close> is
  \<^verbatim>\<open>"Task #"\<close> followed by \<^verbatim>\<open>str(n)\<close>, which is the decimal numeral of \<open>n\<close> (so the
  title contains it), \<^verbatim>\<open>status\<close> is \<^verbatim>\<open>"pending"\<close>, \<^verbatim>\<open>priority\<close> is
  \<^verbatim>\<open>"medium"\<close>, and \<^verbatim>\<open>created_at\<close> is the one constant timestamp of the source.
\<close>

theorem get_task_by_id_response:
  assumes "\<bar>n\<bar> < 10 ^ default_max_str_digits"
  shows "\<exists>b. get_task_by_id n = Inr b
         \<and> app \<lparr>req_path = ''/tasks/'' @ decimal n, req_query = qs\<rparr>
             = \<lparr>status_code = 200, body = b\<rparr>
         \<and> jget ''task_id'' b = Some (JInt n)
         \<and> str_int n = Inr (decimal n)
         \<and> jget ''title'' b = Some (JStr (''Task #'' @ decimal n))
         \<and> sublist (decimal n) (''Task #'' @ decimal n)
         \<and> jget ''status'' b = Some (JStr ''pending'')
         \<and> jget ''priority'' b = Some (JStr ''medium'')
         \<and> jget ''created_at'' b = Some (JStr ''2026-01-09T00:00:00Z'')"
proof -
  note r = get_task_by_id_returns [OF assms]
  have "app \<lparr>req_path = ''/tasks/'' @ decimal n, req_query = qs\<rparr>
      = (case get_task_by_id n of Inl e \<Rightarrow> server_error | Inr b \<Rightarrow> ok b)"
    using app_tasks [OF decimal_nonempty decimal_no_slash, of n qs]
    by (simp add: parse_int_decimal)
  moreover have "sublist (decimal n) (''Task #'' @ decimal n)"
    by (rule sublist_append_leftI)
  ultimately show ?thesis
    by (simp add: r ok_def str_int_returns [OF assms])
qed

theorem get_task_by_id_response_witness:
  "\<bar>- 7\<bar> < (10::int) ^ default_max_str_digits
   \<and> (\<exists>b. get_task_by_id (- 7) = Inr b
        \<and> app \<lparr>req_path = ''/tasks/-7'', req_query = Map.empty\<rparr>
            = \<lparr>status_code = 200, body = b\<rparr>
        \<and> jget ''task_id'' b = Some (JInt (- 7))
        \<and> jget ''title'' b = Some (JStr ''Task #-7'')
        \<and> jget ''status'' b = Some (JStr ''pending'')
        \<and> jget ''priority'' b = Some (JStr ''medium'')
        \<and> jget ''created_at'' b = Some (JStr ''2026-01-09T00:00:00Z''))"
proof -
  have h: "\<bar>- 7\<bar> < (10::int) ^ default_max_str_digits"
    by (rule small_in_range) simp
  have d: "decimal (- 7) = ''-7''"
    by (simp add: decimal_def str_nat.simps digit_char_def)
  from get_task_by_id_response [OF h, of Map.empty] obtain b where
    "get_task_by_id (- 7) = Inr b"
    "app \<lparr>req_path = ''/tasks/'' @ decimal (- 7), req_query = Map.empty\<rparr>
       = \<lparr>status_code = 200, body = b\<rparr>"
    "jget ''task_id'' b = Some (JInt (- 7))"
    "jget ''title'' b = Some (JStr (''Task #'' @ decimal (- 7)))"
    "jget ''status'' b = Some (JStr ''pending'')"
    "jget ''priority'' b = Some (JStr ''medium'')"
    "jget ''created_at'' b = Some (JStr ''2026-01-09T00:00:00Z'')"
    by blast
  then have "\<exists>b. get_task_by_id (- 7) = Inr b
        \<and> app \<lparr>req_path = ''/tasks/-7'', req_query = Map.empty\<rparr>
            = \<lparr>status_code = 200, body = b\<rparr>
        \<and> jget ''task_id'' b = Some (JInt (- 7))
        \<and> jget ''title'' b = Some (JStr ''Task #-7'')
        \<and> jget ''status'' b = Some (JStr ''pending'')
        \<and> jget ''priority'' b = Some (JStr ''medium'')
        \<and> jget ''created_at'' b = Some (JStr ''2026-01-09T00:00:00Z'')"
    unfolding d by (intro exI [of _ b]) simp
  with h show ?thesis
    by (intro conjI)
qed

text \<open>
  The claim C2 as first stated, for every integer, fails at \<open>n = 10 ^ 4300\<close>, the least
  number of 4301 digits: the f-string of the title raises \<^verbatim>\<open>ValueError\<close>, the handler
  returns no body, and the request for that number is not answered with status 200.
\<close>

theorem get_task_by_id_counterexample:
  "get_task_by_id (10 ^ default_max_str_digits) = Inl ValueError
   \<and> status_code (app \<lparr>req_path = ''/tasks/'' @ decimal (10 ^ default_max_str_digits),
        req_query = Map.empty\<rparr>) \<noteq> 200"
proof -
  have big: "10 ^ default_max_str_digits \<le> \<bar>(10::int) ^ default_max_str_digits\<bar>"
    by simp
  have "app \<lparr>req_path = ''/tasks/'' @ decimal (10 ^ default_max_str_digits),
        req_query = Map.empty\<rparr> = server_error"
    using app_tasks [OF decimal_nonempty decimal_no_slash,
        of "10 ^ default_max_str_digits" Map.empty]
    by (simp add: parse_int_decimal get_task_by_id_raises [OF big])
  then show ?thesis
    by (simp add: get_task_by_id_raises [OF big] server_error_def)
qed

text \<open>
  C3 (as amended). For every non-empty path segment \<open>seg\<close> (a segment holds no slash):
  if \<open>seg\<close> does not parse as a signed integer, \<^verbatim>\<open>GET /tasks/{seg}\<close> is answered with
  status 422 and a body whose \<^verbatim>\<open>detail\<close> array starts with an element of type
  \<^verbatim>\<open>"int_parsing"\<close> whose \<^verbatim>\<open>loc\<close> names \<^verbatim>\<open>task_id\<close>; if it parses as an
  integer \<open>n\<close> of at most 4300 digits (\<open>\<bar>n\<bar> < 10 ^ 4300\<close>), the answer is status 200 with
  the body that \<^verbatim>\<open>get_task_by_id(n)\<close> returns.
\<close>

theorem task_id_literal_validation:
  assumes "seg \<noteq> []" and "CHR ''/'' \<notin> set seg"
  shows "(parse_int seg = None \<longrightarrow>
            status_code (app \<lparr>req_path = ''/tasks/'' @ seg, req_query = qs\<rparr>) = 422
          \<and> (\<exists>e rest loc.
                jget ''detail'' (body (app \<lparr>req_path = ''/tasks/'' @ seg, req_query = qs\<rparr>))
                  = Some (JArr (e # rest))
              \<and> jget ''type'' e = Some (JStr ''int_parsing'')
              \<and> jget ''loc'' e = Some (JArr loc)
              \<and> JStr ''task_id'' \<in> set loc))
       \<and> (\<forall>n. parse_int seg = Some n \<and> \<bar>n\<bar> < 10 ^ default_max_str_digits \<longrightarrow>
            (\<exists>b. get_task_by_id n = Inr b
               \<and> app \<lparr>req_path = ''/tasks/'' @ seg, req_query = qs\<rparr>
                   = \<lparr>status_code = 200, body = b\<rparr>))"
proof -
  note a = app_tasks [OF assms, of qs]
  have "status_code (app \<lparr>req_path = ''/tasks/'' @ seg, req_query = qs\<rparr>) = 422
          \<and> (\<exists>e rest loc.
                jget ''detail'' (body (app \<lparr>req_path = ''/tasks/'' @ seg, req_query = qs\<rparr>))
                  = Some (JArr (e # rest))
              \<and> jget ''type'' e = Some (JStr ''int_parsing'')
              \<and> jget ''loc'' e = Some (JArr loc)
              \<and> JStr ''task_id'' \<in> set loc)"
    if "parse_int seg = None"
    using a that by (simp add: unprocessable_def json_of_error_def)
  moreover have "\<exists>b. get_task_by_id n = Inr b
               \<and> app \<lparr>req_path = ''/tasks/'' @ seg, req_query = qs\<rparr>
                   = \<lparr>status_code = 200, body = b\<rparr>"
    if "parse_int seg = Some n" "\<bar>n\<bar> < 10 ^ default_max_str_digits" for n
    using a that(1) by (simp add: get_task_by_id_returns [OF that(2)] ok_def)
  ultimately show ?thesis
    by blast
qed

theorem task_id_literal_validation_witness:
  "''12.3'' \<noteq> [] \<and> CHR ''/'' \<notin> set ''12.3'' \<and> parse_int ''12.3'' = None
   \<and> status_code (app \<lparr>req_path = ''/tasks/12.3'', req_query = Map.empty\<rparr>) = 422
   \<and> (\<exists>e rest loc.
         jget ''detail'' (body (app \<lparr>req_path = ''/tasks/12.3'', req_query = Map.empty\<rparr>))
           = Some (JArr (e # rest))
       \<and> jget ''type'' e = Some (JStr ''int_parsing'')
       \<and> jget ''loc'' e = Some (JArr loc)
       \<and> JStr ''task_id'' \<in> set loc)
   \<and> ''-7'' \<noteq> [] \<and> CHR ''/'' \<notin> set ''-7'' \<and> parse_int ''-7'' = Some (- 7)
   \<and> \<bar>- 7\<bar> < (10::int) ^ default_max_str_digits
   \<and> (\<exists>b. get_task_by_id (- 7) = Inr b
        \<and> app \<lparr>req_path = ''/tasks/-7'', req_query = Map.empty\<rparr>
            = \<lparr>status_code = 200, body = b\<rparr>)"
proof -
  have a1: "''12.3'' \<noteq> []" by simp
  have a2: "CHR ''/'' \<notin> set ''12.3''" by simp
  have a3: "parse_int ''12.3'' = None"
    by (simp add: parse_int_def parse_nat_def is_digit_def)
  have a4: "''/tasks/'' @ ''12.3'' = ''/tasks/12.3''" by simp
  have b1: "''-7'' \<noteq> []" by simp
  have b2: "CHR ''/'' \<notin> set ''-7''" by simp
  have b3: "parse_int ''-7'' = Some (- 7)"
    by (simp add: parse_int_def parse_nat_def is_digit_def digit_val_def)
  have b4: "''/tasks/'' @ ''-7'' = ''/tasks/-7''" by simp
  have b5: "\<bar>- 7\<bar> < (10::int) ^ default_max_str_digits"
    by (rule small_in_range) simp
  from task_id_literal_validation [OF a1 a2, of Map.empty, unfolded a4] a3
  have A: "status_code (app \<lparr>req_path = ''/tasks/12.3'', req_query = Map.empty\<rparr>) = 422
   \<and> (\<exists>e rest loc.
         jget ''detail'' (body (app \<lparr>req_path = ''/tasks/12.3'', req_query = Map.empty\<rparr>))
           = Some (JArr (e # rest))
       \<and> jget ''type'' e = Some (JStr ''int_parsing'')
       \<and> jget ''loc'' e = Some (JArr loc)
       \<and> JStr ''task_id'' \<in> set loc)"
    by blast
  from task_id_literal_validation [OF b1 b2, of Map.empty, unfolded b4] b3 b5
  have B: "\<exists>b. get_task_by_id (- 7) = Inr b
        \<and> app \<lparr>req_path = ''/tasks/-7'', req_query = Map.empty\<rparr>
            = \<lparr>status_code = 200, body = b\<rparr>"
    by blast
  from a1 a2 a3 A b1 b2 b3 b5 B show ?thesis
    by blast
qed

text \<open>
  The claim C3 as first stated, with status 200 for every segment that parses as a
  signed integer, fails at the numeral of \<open>- (10 ^ 4300)\<close>: the segment is not empty,
  holds no slash and parses as that integer, but the handler raises \<^verbatim>\<open>ValueError\<close>
  and the answer does not have status 200.
\<close>

theorem task_id_literal_validation_counterexample:
  "decimal (- (10 ^ default_max_str_digits)) \<noteq> []
   \<and> CHR ''/'' \<notin> set (decimal (- (10 ^ default_max_str_digits)))
   \<and> parse_int (decimal (- (10 ^ default_max_str_digits))) = Some (- (10 ^ default_max_str_digits))
   \<and> get_task_by_id (- (10 ^ default_max_str_digits)) = Inl ValueError
   \<and> status_code (app \<lparr>req_path = ''/tasks/'' @ decimal (- (10 ^ default_max_str_digits)),
        req_query = Map.empty\<rparr>) \<noteq> 200"
proof -
  have big: "10 ^ default_max_str_digits \<le> \<bar>- ((10::int) ^ default_max_str_digits)\<bar>"
    by simp
  have "app \<lparr>req_path = ''/tasks/'' @ decimal (- (10 ^ default_max_str_digits)),
        req_query = Map.empty\<rparr> = server_error"
    using app_tasks [OF decimal_nonempty decimal_no_slash,
        of "- (10 ^ default_max_str_digits)" Map.empty]
    by (simp add: parse_int_decimal get_task_by_id_raises [OF big])
  then show ?thesis
    by (simp add: get_task_by_id_raises [OF big] server_error_def parse_int_decimal
        decimal_nonempty decimal_no_slash)
qed

text \<open>
  C8. \<^verbatim>\<open>GET /tasks/\<close>, with nothing after the final slash, matches no route, the
  route \<^verbatim>\<open>/tasks/{task_id}\<close> included, and is answered with status 404.
\<close>

theorem tasks_empty_segment_not_found:
  "match_route ''/tasks/'' = None
   \<and> status_code (app \<lparr>req_path = ''/tasks/'', req_query = qs\<rparr>) = 404"
  by (simp add: app_def match_route_def not_found_def)


text \<open>
  C1. For every valid \<^verbatim>\<open>GET /search\<close> request (\<^verbatim>\<open>q\<close> supplied, \<^verbatim>\<open>limit\<close> and
  \<^verbatim>\<open>offset\<close> bound to integers), the answer has status 200 and the body of
  \<^verbatim>\<open>search_tasks\<close>: \<^verbatim>\<open>total_results\<close> is 42; \<^verbatim>\<open>results\<close> holds exactly two
  records, with \<^verbatim>\<open>task_id\<close> \<open>offset + 1\<close> and \<open>offset + 2\<close> in that order and titles
  that embed \<open>q\<close> between apostrophes; without a status filter their \<^verbatim>\<open>status\<close> is
  \<^verbatim>\<open>"pending"\<close> and \<^verbatim>\<open>"in_progress"\<close>; \<^verbatim>\<open>filters\<close> echoes the supplied status,
  limit and offset.
\<close>

theorem search_valid_response:
  assumes "qs ''q'' = Some q"
    and "query_int qs ''limit'' 10 = Inr limit"
    and "query_int qs ''offset'' 0 = Inr offset"
  shows "\<exists>b r1 r2 t1 t2.
           app \<lparr>req_path = ''/search'', req_query = qs\<rparr> = \<lparr>status_code = 200, body = b\<rparr>
         \<and> jget ''total_results'' b = Some (JInt 42)
         \<and> jget ''results'' b = Some (JArr [r1, r2])
         \<and> jget ''task_id'' r1 = Some (JInt (offset + 1))
         \<and> jget ''task_id'' r2 = Some (JInt (offset + 2))
         \<and> jget ''title'' r1 = Some (JStr t1)
         \<and> t1 = ''Task matching '' @ [apostrophe] @ q @ [apostrophe] \<and> sublist q t1
         \<and> jget ''title'' r2 = Some (JStr t2)
         \<and> t2 = ''Another task for '' @ [apostrophe] @ q @ [apostrophe] \<and> sublist q t2
         \<and> (qs ''status'' = None \<longrightarrow>
               jget ''status'' r1 = Some (JStr ''pending'')
             \<and> jget ''status'' r2 = Some (JStr ''in_progress''))
         \<and> jget ''filters'' b = Some (JObj [
               (''status'', json_of_opt_str (qs ''status'')),
               (''limit'', JInt limit),
               (''offset'', JInt offset)])"
proof -
  have e1: "sublist q (''Task matching '' @ [apostrophe] @ q @ [apostrophe])"
    using sublist_appendI [of q "''Task matching '' @ [apostrophe]" "[apostrophe]"] by simp
  have e2: "sublist q (''Another task for '' @ [apostrophe] @ q @ [apostrophe])"
    using sublist_appendI [of q "''Another task for '' @ [apostrophe]" "[apostrophe]"] by simp
  show ?thesis
    using e1 e2
    by (simp add: app_search_valid [OF assms] ok_def search_tasks_def py_or_def)
qed


theorem search_valid_response_witness:
  "[''q'' \<mapsto> ''X'', ''limit'' \<mapsto> ''5'', ''offset'' \<mapsto> ''10'', ''status'' \<mapsto> ''completed''] ''q''
     = Some ''X''
   \<and> query_int [''q'' \<mapsto> ''X'', ''limit'' \<mapsto> ''5'', ''offset'' \<mapsto> ''10'',
        ''status'' \<mapsto> ''completed''] ''limit'' 10 = Inr 5
   \<and> query_int [''q'' \<mapsto> ''X'', ''limit'' \<mapsto> ''5'', ''offset'' \<mapsto> ''10'',
        ''status'' \<mapsto> ''completed''] ''offset'' 0 = Inr 10
   \<and> (\<exists>b r1 r2.
        app \<lparr>req_path = ''/search'',
             req_query = [''q'' \<mapsto> ''X'', ''limit'' \<mapsto> ''5'', ''offset'' \<mapsto> ''10'',
               ''status'' \<mapsto> ''completed'']\<rparr>
          = \<lparr>status_code = 200, body = b\<rparr>
      \<and> jget ''total_results'' b = Some (JInt 42)
      \<and> jget ''filters'' b = Some (JObj [
            (''status'', JStr ''completed''), (''limit'', JInt 5), (''offset'', JInt 10)])
      \<and> jget ''results'' b = Some (JArr [r1, r2])
      \<and> jget ''task_id'' r1 = Some (JInt 11)
      \<and> jget ''task_id'' r2 = Some (JInt 12))
   \<and> [''q'' \<mapsto> ''test''] ''q'' = Some ''test''
   \<and> [''q'' \<mapsto> ''test''] ''status'' = None
   \<and> query_int [''q'' \<mapsto> ''test''] ''limit'' 10 = Inr 10
   \<and> query_int [''q'' \<mapsto> ''test''] ''offset'' 0 = Inr 0
   \<and> (\<exists>b r1 r2.
        app \<lparr>req_path = ''/search'', req_query = [''q'' \<mapsto> ''test'']\<rparr>
          = \<lparr>status_code = 200, body = b\<rparr>
      \<and> jget ''filters'' b = Some (JObj [
            (''status'', JNull), (''limit'', JInt 10), (''offset'', JInt 0)])
      \<and> jget ''results'' b = Some (JArr [r1, r2])
      \<and> jget ''task_id'' r1 = Some (JInt 1)
      \<and> jget ''task_id'' r2 = Some (JInt 2)
      \<and> jget ''status'' r1 = Some (JStr ''pending'')
      \<and> jget ''status'' r2 = Some (JStr ''in_progress''))"
proof -
  let ?a = "[''q'' \<mapsto> ''X'', ''limit'' \<mapsto> ''5'', ''offset'' \<mapsto> ''10'',
    ''status'' \<mapsto> ''completed'']"
  let ?b = "[''q'' \<mapsto> ''test'']"
  have a1: "?a ''q'' = Some ''X''" by simp
  have a2: "query_int ?a ''limit'' 10 = Inr 5"
    by (simp add: query_int_def parse_int_def parse_nat_def is_digit_def digit_val_def)
  have a3: "query_int ?a ''offset'' 0 = Inr 10"
    by (simp add: query_int_def parse_int_def parse_nat_def is_digit_def digit_val_def)
  have a4: "json_of_opt_str (?a ''status'') = JStr ''completed''"
    by (simp add: json_of_opt_str_def)
  have b1: "?b ''q'' = Some ''test''" by simp
  have b2: "query_int ?b ''limit'' 10 = Inr 10" by (simp add: query_int_def)
  have b3: "query_int ?b ''offset'' 0 = Inr 0" by (simp add: query_int_def)
  have b4: "?b ''status'' = None" by simp
  have b5: "json_of_opt_str (?b ''status'') = JNull"
    by (simp add: json_of_opt_str_def)
  from search_valid_response [OF a1 a2 a3] obtain b r1 r2 where
    "app \<lparr>req_path = ''/search'', req_query = ?a\<rparr> = \<lparr>status_code = 200, body = b\<rparr>"
    "jget ''total_results'' b = Some (JInt 42)"
    "jget ''filters'' b = Some (JObj [(''status'', json_of_opt_str (?a ''status'')),
        (''limit'', JInt 5), (''offset'', JInt 10)])"
    "jget ''results'' b = Some (JArr [r1, r2])"
    "jget ''task_id'' r1 = Some (JInt (10 + 1))"
    "jget ''task_id'' r2 = Some (JInt (10 + 2))"
    by blast
  then have A: "\<exists>b r1 r2.
        app \<lparr>req_path = ''/search'', req_query = ?a\<rparr> = \<lparr>status_code = 200, body = b\<rparr>
      \<and> jget ''total_results'' b = Some (JInt 42)
      \<and> jget ''filters'' b = Some (JObj [
            (''status'', JStr ''completed''), (''limit'', JInt 5), (''offset'', JInt 10)])
      \<and> jget ''results'' b = Some (JArr [r1, r2])
      \<and> jget ''task_id'' r1 = Some (JInt 11)
      \<and> jget ''task_id'' r2 = Some (JInt 12)"
    unfolding a4 by (intro exI [of _ b] exI [of _ r1] exI [of _ r2]) simp
  from search_valid_response [OF b1 b2 b3] b4 obtain b r1 r2 where
    "app \<lparr>req_path = ''/search'', req_query = ?b\<rparr> = \<lparr>status_code = 200, body = b\<rparr>"
    "jget ''filters'' b = Some (JObj [(''status'', json_of_opt_str (?b ''status'')),
        (''limit'', JInt 10), (''offset'', JInt 0)])"
    "jget ''results'' b = Some (JArr [r1, r2])"
    "jget ''task_id'' r1 = Some (JInt (0 + 1))"
    "jget ''task_id'' r2 = Some (JInt (0 + 2))"
    "jget ''status'' r1 = Some (JStr ''pending'')"
    "jget ''status'' r2 = Some (JStr ''in_progress'')"
    by blast
  then have B: "\<exists>b r1 r2.
        app \<lparr>req_path = ''/search'', req_query = ?b\<rparr> = \<lparr>status_code = 200, body = b\<rparr>
      \<and> jget ''filters'' b = Some (JObj [
            (''status'', JNull), (''limit'', JInt 10), (''offset'', JInt 0)])
      \<and> jget ''results'' b = Some (JArr [r1, r2])
      \<and> jget ''task_id'' r1 = Some (JInt 1)
      \<and> jget ''task_id'' r2 = Some (JInt 2)
      \<and> jget ''status'' r1 = Some (JStr ''pending'')
      \<and> jget ''status'' r2 = Some (JStr ''in_progress'')"
    unfolding b5 by (intro exI [of _ b] exI [of _ r1] exI [of _ r2]) simp
  from a1 a2 a3 A b1 b4 b2 b3 B show ?thesis
    by (intro conjI)
qed

text \<open>
  C4. \<^verbatim>\<open>GET /search\<close> without the query parameter \<^verbatim>\<open>q\<close> is answered with status
  422 and a \<^verbatim>\<open>detail\<close> array whose first element has type \<^verbatim>\<open>"missing"\<close> and a
  \<^verbatim>\<open>loc\<close> that names \<^verbatim>\<open>q\<close>, whatever the other parameters are. With \<^verbatim>\<open>q\<close>
  supplied as the empty string (and \<^verbatim>\<open>limit\<close>, \<^verbatim>\<open>offset\<close> absent or integers, as in
  \<^verbatim>\<open>GET /search?q=\<close>) the answer has status 200 and \<^verbatim>\<open>query\<close> is the empty string.
\<close>

theorem search_q_required:
  "(qs ''q'' = None \<longrightarrow>
      status_code (app \<lparr>req_path = ''/search'', req_query = qs\<rparr>) = 422
    \<and> (\<exists>e rest loc.
          jget ''detail'' (body (app \<lparr>req_path = ''/search'', req_query = qs\<rparr>))
            = Some (JArr (e # rest))
        \<and> jget ''type'' e = Some (JStr ''missing'')
        \<and> jget ''loc'' e = Some (JArr loc)
        \<and> JStr ''q'' \<in> set loc))
   \<and> (qs ''q'' = Some [] \<and> query_int qs ''limit'' 10 = Inr limit
        \<and> query_int qs ''offset'' 0 = Inr offset \<longrightarrow>
      status_code (app \<lparr>req_path = ''/search'', req_query = qs\<rparr>) = 200
    \<and> jget ''query'' (body (app \<lparr>req_path = ''/search'', req_query = qs\<rparr>)) = Some (JStr []))"
proof -
  have missing: "\<exists>errs. bind_search qs = Inl (ValidationError ''missing'' [''query'', ''q''] # errs)"
    if "qs ''q'' = None"
    using that by (simp add: bind_search_def query_str_required_def Let_def)
  have "status_code (app \<lparr>req_path = ''/search'', req_query = qs\<rparr>) = 422
    \<and> (\<exists>e rest loc.
          jget ''detail'' (body (app \<lparr>req_path = ''/search'', req_query = qs\<rparr>))
            = Some (JArr (e # rest))
        \<and> jget ''type'' e = Some (JStr ''missing'')
        \<and> jget ''loc'' e = Some (JArr loc)
        \<and> JStr ''q'' \<in> set loc)"
    if "qs ''q'' = None"
  proof -
    from missing [OF that] obtain errs
      where "bind_search qs = Inl (ValidationError ''missing'' [''query'', ''q''] # errs)" ..
    then show ?thesis
      by (simp add: app_search unprocessable_def json_of_error_def)
  qed
  moreover have "status_code (app \<lparr>req_path = ''/search'', req_query = qs\<rparr>) = 200
    \<and> jget ''query'' (body (app \<lparr>req_path = ''/search'', req_query = qs\<rparr>)) = Some (JStr [])"
    if "qs ''q'' = Some []" "query_int qs ''limit'' 10 = Inr limit"
       "query_int qs ''offset'' 0 = Inr offset"
    by (simp add: app_search_valid [OF that] ok_def search_tasks_def)
  ultimately show ?thesis
    by blast
qed



theorem search_q_required_witness:
  "(Map.empty :: string \<rightharpoonup> string) ''q'' = None
   \<and> status_code (app \<lparr>req_path = ''/search'', req_query = Map.empty\<rparr>) = 422
   \<and> (\<exists>e rest loc.
         jget ''detail'' (body (app \<lparr>req_path = ''/search'', req_query = Map.empty\<rparr>))
           = Some (JArr (e # rest))
       \<and> jget ''type'' e = Some (JStr ''missing'')
       \<and> jget ''loc'' e = Some (JArr loc)
       \<and> JStr ''q'' \<in> set loc)
   \<and> [''q'' \<mapsto> ([] :: string)] ''q'' = Some []
   \<and> query_int [''q'' \<mapsto> ([] :: string)] ''limit'' 10 = Inr 10
   \<and> query_int [''q'' \<mapsto> ([] :: string)] ''offset'' 0 = Inr 0
   \<and> status_code (app \<lparr>req_path = ''/search'', req_query = [''q'' \<mapsto> ([] :: string)]\<rparr>) = 200
   \<and> jget ''query'' (body (app \<lparr>req_path = ''/search'', req_query = [''q'' \<mapsto> ([] :: string)]\<rparr>))
       = Some (JStr [])"
proof -
  let ?b = "[''q'' \<mapsto> ([] :: string)]"
  have a1: "(Map.empty :: string \<rightharpoonup> string) ''q'' = None" by simp
  have b1: "?b ''q'' = Some []" by simp
  have b2: "query_int ?b ''limit'' 10 = Inr 10" by (simp add: query_int_def)
  have b3: "query_int ?b ''offset'' 0 = Inr 0" by (simp add: query_int_def)
  from search_q_required [of Map.empty] a1
  have A: "status_code (app \<lparr>req_path = ''/search'', req_query = Map.empty\<rparr>) = 422
   \<and> (\<exists>e rest loc.
         jget ''detail'' (body (app \<lparr>req_path = ''/search'', req_query = Map.empty\<rparr>))
           = Some (JArr (e # rest))
       \<and> jget ''type'' e = Some (JStr ''missing'')
       \<and> jget ''loc'' e = Some (JArr loc)
       \<and> JStr ''q'' \<in> set loc)"
    by blast
  from search_q_required [of ?b 10 0] b1 b2 b3
  have B: "status_code (app \<lparr>req_path = ''/search'', req_query = ?b\<rparr>) = 200
   \<and> jget ''query'' (body (app \<lparr>req_path = ''/search'', req_query = ?b\<rparr>)) = Some (JStr [])"
    by blast
  from a1 A b1 b2 b3 B show ?thesis
    by blast
qed

text \<open>
  C5. For \<^verbatim>\<open>GET /search\<close> with \<^verbatim>\<open>q\<close> supplied:
  an absent \<^verbatim>\<open>limit\<close> is bound to the default 10 and an absent \<^verbatim>\<open>offset\<close> to the
  default 0, and these values appear in \<^verbatim>\<open>filters\<close>;
  a \<^verbatim>\<open>limit\<close> or \<^verbatim>\<open>offset\<close> literal that is no integer is answered with status 422;
  a \<^verbatim>\<open>limit\<close> or \<^verbatim>\<open>offset\<close> written as the decimal numeral of any integer \<open>n\<close>,
  the negative ones included, is accepted with status 200 and \<open>n\<close> appears unchanged in
  \<^verbatim>\<open>filters\<close> (and, for \<^verbatim>\<open>offset\<close>, in the task ids \<open>n + 1\<close> and \<open>n + 2\<close>).
\<close>

theorem search_limit_offset_binding:
  assumes "qs ''q'' = Some q"
  shows "(qs ''limit'' = None \<and> query_int qs ''offset'' 0 = Inr offset \<longrightarrow>
            app \<lparr>req_path = ''/search'', req_query = qs\<rparr>
              = \<lparr>status_code = 200, body = search_tasks q 10 offset (qs ''status'')\<rparr>
          \<and> (\<exists>f. jget ''filters'' (search_tasks q 10 offset (qs ''status'')) = Some f
                \<and> jget ''limit'' f = Some (JInt 10)))
       \<and> (query_int qs ''limit'' 10 = Inr limit \<and> qs ''offset'' = None \<longrightarrow>
            app \<lparr>req_path = ''/search'', req_query = qs\<rparr>
              = \<lparr>status_code = 200, body = search_tasks q limit 0 (qs ''status'')\<rparr>
          \<and> (\<exists>f. jget ''filters'' (search_tasks q limit 0 (qs ''status'')) = Some f
                \<and> jget ''offset'' f = Some (JInt 0)))
       \<and> ((\<exists>raw. qs ''limit'' = Some raw \<and> parse_int raw = None)
            \<or> (\<exists>raw. qs ''offset'' = Some raw \<and> parse_int raw = None) \<longrightarrow>
            status_code (app \<lparr>req_path = ''/search'', req_query = qs\<rparr>) = 422)
       \<and> (qs ''limit'' = Some (decimal l) \<and> query_int qs ''offset'' 0 = Inr offset \<longrightarrow>
            app \<lparr>req_path = ''/search'', req_query = qs\<rparr>
              = \<lparr>status_code = 200, body = search_tasks q l offset (qs ''status'')\<rparr>
          \<and> (\<exists>f. jget ''filters'' (search_tasks q l offset (qs ''status'')) = Some f
                \<and> jget ''limit'' f = Some (JInt l)))
       \<and> (query_int qs ''limit'' 10 = Inr limit \<and> qs ''offset'' = Some (decimal k) \<longrightarrow>
            app \<lparr>req_path = ''/search'', req_query = qs\<rparr>
              = \<lparr>status_code = 200, body = search_tasks q limit k (qs ''status'')\<rparr>
          \<and> (\<exists>f r1 r2. jget ''filters'' (search_tasks q limit k (qs ''status'')) = Some f
                \<and> jget ''offset'' f = Some (JInt k)
                \<and> jget ''results'' (search_tasks q limit k (qs ''status'')) = Some (JArr [r1, r2])
                \<and> jget ''task_id'' r1 = Some (JInt (k + 1))
                \<and> jget ''task_id'' r2 = Some (JInt (k + 2))))"
proof -
  have filters: "\<exists>f. jget ''filters'' (search_tasks q a b s) = Some f
      \<and> jget ''limit'' f = Some (JInt a) \<and> jget ''offset'' f = Some (JInt b)" for a b s
    by (simp add: search_tasks_def)
  have ids: "\<exists>r1 r2. jget ''results'' (search_tasks q a b s) = Some (JArr [r1, r2])
      \<and> jget ''task_id'' r1 = Some (JInt (b + 1))
      \<and> jget ''task_id'' r2 = Some (JInt (b + 2))" for a b s
    by (simp add: search_tasks_def)
  have valid: "app \<lparr>req_path = ''/search'', req_query = qs\<rparr>
      = \<lparr>status_code = 200, body = search_tasks q a b (qs ''status'')\<rparr>"
    if "query_int qs ''limit'' 10 = Inr a" "query_int qs ''offset'' 0 = Inr b" for a b
    using app_search_valid [OF assms that] by (simp add: ok_def)
  have absent: "query_int qs name d = Inr d" if "qs name = None" for name d
    using that by (simp add: query_int_def)
  have written: "query_int qs name d = Inr n" if "qs name = Some (decimal n)" for name d n
    using that by (simp add: query_int_def parse_int_decimal)
  have c1: "app \<lparr>req_path = ''/search'', req_query = qs\<rparr>
              = \<lparr>status_code = 200, body = search_tasks q 10 offset (qs ''status'')\<rparr>
          \<and> (\<exists>f. jget ''filters'' (search_tasks q 10 offset (qs ''status'')) = Some f
                \<and> jget ''limit'' f = Some (JInt 10))"
    if "qs ''limit'' = None" "query_int qs ''offset'' 0 = Inr offset"
    using valid [OF absent [OF that(1)] that(2)] filters [of 10 offset "qs ''status''"]
    by blast
  have c2: "app \<lparr>req_path = ''/search'', req_query = qs\<rparr>
              = \<lparr>status_code = 200, body = search_tasks q limit 0 (qs ''status'')\<rparr>
          \<and> (\<exists>f. jget ''filters'' (search_tasks q limit 0 (qs ''status'')) = Some f
                \<and> jget ''offset'' f = Some (JInt 0))"
    if "query_int qs ''limit'' 10 = Inr limit" "qs ''offset'' = None"
    using valid [OF that(1) absent [OF that(2)]] filters [of limit 0 "qs ''status''"]
    by blast
  have bad: "\<exists>errs. bind_search qs = Inl errs"
    if "(\<exists>raw. qs ''limit'' = Some raw \<and> parse_int raw = None)
          \<or> (\<exists>raw. qs ''offset'' = Some raw \<and> parse_int raw = None)"
    using that
    by (auto simp: bind_search_def query_int_def Let_def split: sum.splits option.splits)
  have c3: "status_code (app \<lparr>req_path = ''/search'', req_query = qs\<rparr>) = 422"
    if "(\<exists>raw. qs ''limit'' = Some raw \<and> parse_int raw = None)
          \<or> (\<exists>raw. qs ''offset'' = Some raw \<and> parse_int raw = None)"
    using bad [OF that] by (auto simp: app_search unprocessable_def)
  have c4: "app \<lparr>req_path = ''/search'', req_query = qs\<rparr>
              = \<lparr>status_code = 200, body = search_tasks q l offset (qs ''status'')\<rparr>
          \<and> (\<exists>f. jget ''filters'' (search_tasks q l offset (qs ''status'')) = Some f
                \<and> jget ''limit'' f = Some (JInt l))"
    if "qs ''limit'' = Some (decimal l)" "query_int qs ''offset'' 0 = Inr offset"
    using valid [OF written [OF that(1)] that(2)] filters [of l offset "qs ''status''"]
    by blast
  have c5: "app \<lparr>req_path = ''/search'', req_query = qs\<rparr>
              = \<lparr>status_code = 200, body = search_tasks q limit k (qs ''status'')\<rparr>
          \<and> (\<exists>f r1 r2. jget ''filters'' (search_tasks q limit k (qs ''status'')) = Some f
                \<and> jget ''offset'' f = Some (JInt k)
                \<and> jget ''results'' (search_tasks q limit k (qs ''status'')) = Some (JArr [r1, r2])
                \<and> jget ''task_id'' r1 = Some (JInt (k + 1))
                \<and> jget ''task_id'' r2 = Some (JInt (k + 2)))"
    if "query_int qs ''limit'' 10 = Inr limit" "qs ''offset'' = Some (decimal k)"
    using valid [OF that(1) written [OF that(2)]] filters [of limit k "qs ''status''"]
      ids [of limit k "qs ''status''"]
    by blast
  from c1 c2 c3 c4 c5 show ?thesis
    by blast
qed


theorem search_limit_offset_binding_witness:
  "[''q'' \<mapsto> ''test''] ''q'' = Some ''test''
   \<and> [''q'' \<mapsto> ''test''] ''limit'' = None \<and> [''q'' \<mapsto> ''test''] ''offset'' = None
   \<and> query_int [''q'' \<mapsto> ''test''] ''limit'' 10 = Inr 10
   \<and> query_int [''q'' \<mapsto> ''test''] ''offset'' 0 = Inr 0
   \<and> app \<lparr>req_path = ''/search'', req_query = [''q'' \<mapsto> ''test'']\<rparr>
       = \<lparr>status_code = 200, body = search_tasks ''test'' 10 0 None\<rparr>
   \<and> [''q'' \<mapsto> ''test'', ''limit'' \<mapsto> ''notanumber''] ''q'' = Some ''test''
   \<and> [''q'' \<mapsto> ''test'', ''limit'' \<mapsto> ''notanumber''] ''limit'' = Some ''notanumber''
   \<and> parse_int ''notanumber'' = None
   \<and> status_code (app \<lparr>req_path = ''/search'',
         req_query = [''q'' \<mapsto> ''test'', ''limit'' \<mapsto> ''notanumber'']\<rparr>) = 422
   \<and> [''q'' \<mapsto> ''test'', ''limit'' \<mapsto> ''-1'', ''offset'' \<mapsto> ''-10''] ''q'' = Some ''test''
   \<and> [''q'' \<mapsto> ''test'', ''limit'' \<mapsto> ''-1'', ''offset'' \<mapsto> ''-10''] ''limit''
       = Some (decimal (- 1))
   \<and> [''q'' \<mapsto> ''test'', ''limit'' \<mapsto> ''-1'', ''offset'' \<mapsto> ''-10''] ''offset''
       = Some (decimal (- 10))
   \<and> query_int [''q'' \<mapsto> ''test'', ''limit'' \<mapsto> ''-1'', ''offset'' \<mapsto> ''-10''] ''limit'' 10
       = Inr (- 1)
   \<and> query_int [''q'' \<mapsto> ''test'', ''limit'' \<mapsto> ''-1'', ''offset'' \<mapsto> ''-10''] ''offset'' 0
       = Inr (- 10)
   \<and> app \<lparr>req_path = ''/search'',
         req_query = [''q'' \<mapsto> ''test'', ''limit'' \<mapsto> ''-1'', ''offset'' \<mapsto> ''-10'']\<rparr>
       = \<lparr>status_code = 200, body = search_tasks ''test'' (- 1) (- 10) None\<rparr>
   \<and> (\<exists>f r1 r2.
         jget ''filters'' (search_tasks ''test'' (- 1) (- 10) None) = Some f
       \<and> jget ''offset'' f = Some (JInt (- 10))
       \<and> jget ''results'' (search_tasks ''test'' (- 1) (- 10) None) = Some (JArr [r1, r2])
       \<and> jget ''task_id'' r1 = Some (JInt (- 9))
       \<and> jget ''task_id'' r2 = Some (JInt (- 8)))"
proof -
  let ?a = "[''q'' \<mapsto> ''test'']"
  let ?b = "[''q'' \<mapsto> ''test'', ''limit'' \<mapsto> ''notanumber'']"
  let ?c = "[''q'' \<mapsto> ''test'', ''limit'' \<mapsto> ''-1'', ''offset'' \<mapsto> ''-10'']"
  have a1: "?a ''q'' = Some ''test''" by simp
  have a2: "?a ''limit'' = None" by simp
  have a3: "?a ''offset'' = None" by simp
  have a4: "query_int ?a ''limit'' 10 = Inr 10" by (simp add: query_int_def)
  have a5: "query_int ?a ''offset'' 0 = Inr 0" by (simp add: query_int_def)
  have a6: "?a ''status'' = None" by simp
  have b1: "?b ''q'' = Some ''test''" by simp
  have b2: "?b ''limit'' = Some ''notanumber''" by simp
  have b3: "parse_int ''notanumber'' = None"
    by (simp add: parse_int_def parse_nat_def is_digit_def)
  have c1: "?c ''q'' = Some ''test''" by simp
  have c2: "?c ''limit'' = Some (decimal (- 1))"
    by (simp add: decimal_def str_nat.simps digit_char_def)
  have c3: "?c ''offset'' = Some (decimal (- 10))"
    by (simp add: decimal_def str_nat.simps digit_char_def)
  have c4: "query_int ?c ''limit'' 10 = Inr (- 1)"
    by (simp add: query_int_def parse_int_def parse_nat_def is_digit_def digit_val_def)
  have c5: "query_int ?c ''offset'' 0 = Inr (- 10)"
    by (simp add: query_int_def parse_int_def parse_nat_def is_digit_def digit_val_def)
  have c6: "?c ''status'' = None" by simp
  from search_limit_offset_binding [of ?a "''test''" 0 10, OF a1] a2 a3 a4 a5
  have A: "app \<lparr>req_path = ''/search'', req_query = ?a\<rparr>
       = \<lparr>status_code = 200, body = search_tasks ''test'' 10 0 None\<rparr>"
    unfolding a6 by blast
  from search_limit_offset_binding [of ?b "''test''", OF b1] b2 b3
  have B: "status_code (app \<lparr>req_path = ''/search'', req_query = ?b\<rparr>) = 422"
    by blast
  from search_limit_offset_binding [of ?c "''test''" "- 10" "- 1" "- 1" "- 10", OF c1] c2 c3 c4 c5
  have C: "app \<lparr>req_path = ''/search'', req_query = ?c\<rparr>
       = \<lparr>status_code = 200, body = search_tasks ''test'' (- 1) (- 10) None\<rparr>
     \<and> (\<exists>f r1 r2.
         jget ''filters'' (search_tasks ''test'' (- 1) (- 10) None) = Some f
       \<and> jget ''offset'' f = Some (JInt (- 10))
       \<and> jget ''results'' (search_tasks ''test'' (- 1) (- 10) None) = Some (JArr [r1, r2])
       \<and> jget ''task_id'' r1 = Some (JInt (- 10 + 1))
       \<and> jget ''task_id'' r2 = Some (JInt (- 10 + 2)))"
    unfolding c6 by blast
  then have C': "app \<lparr>req_path = ''/search'', req_query = ?c\<rparr>
       = \<lparr>status_code = 200, body = search_tasks ''test'' (- 1) (- 10) None\<rparr>
     \<and> (\<exists>f r1 r2.
         jget ''filters'' (search_tasks ''test'' (- 1) (- 10) None) = Some f
       \<and> jget ''offset'' f = Some (JInt (- 10))
       \<and> jget ''results'' (search_tasks ''test'' (- 1) (- 10) None) = Some (JArr [r1, r2])
       \<and> jget ''task_id'' r1 = Some (JInt (- 9))
       \<and> jget ''task_id'' r2 = Some (JInt (- 8)))"
    by simp
  from a1 a2 a3 a4 a5 A b1 b2 b3 B c1 c2 c3 c4 c5 C' show ?thesis
    by blast
qed

text \<open>
  C6. For every successful \<^verbatim>\<open>GET /search\<close> request (status 200), \<^verbatim>\<open>q\<close> was supplied
  and the body reflects the supplied strings as they are: \<^verbatim>\<open>query\<close> is exactly the
  string supplied for \<^verbatim>\<open>q\<close>, and \<^verbatim>\<open>filters.status\<close> is exactly the string supplied
  for \<^verbatim>\<open>status\<close> (null when none was supplied).
\<close>

theorem search_reflects_q_and_status:
  assumes "status_code (app \<lparr>req_path = ''/search'', req_query = qs\<rparr>) = 200"
  shows "\<exists>q f. qs ''q'' = Some q
           \<and> jget ''query'' (body (app \<lparr>req_path = ''/search'', req_query = qs\<rparr>)) = Some (JStr q)
           \<and> jget ''filters'' (body (app \<lparr>req_path = ''/search'', req_query = qs\<rparr>)) = Some f
           \<and> jget ''status'' f = Some (json_of_opt_str (qs ''status''))
           \<and> (\<forall>s. qs ''status'' = Some s \<longrightarrow> jget ''status'' f = Some (JStr s))"
proof -
  from search_ok_bound [OF assms] obtain q limit offset
    where q: "qs ''q'' = Some q"
      and a: "app \<lparr>req_path = ''/search'', req_query = qs\<rparr>
                = ok (search_tasks q limit offset (qs ''status''))"
    by blast
  show ?thesis
    by (simp add: q a ok_def search_tasks_def json_of_opt_str_def)
qed


theorem search_reflects_q_and_status_witness:
  "status_code (app \<lparr>req_path = ''/search'',
       req_query = [''q'' \<mapsto> '' My Query '', ''status'' \<mapsto> ''DONE%20'']\<rparr>) = 200
   \<and> jget ''query'' (body (app \<lparr>req_path = ''/search'',
       req_query = [''q'' \<mapsto> '' My Query '', ''status'' \<mapsto> ''DONE%20'']\<rparr>))
       = Some (JStr '' My Query '')
   \<and> (\<exists>f. jget ''filters'' (body (app \<lparr>req_path = ''/search'',
           req_query = [''q'' \<mapsto> '' My Query '', ''status'' \<mapsto> ''DONE%20'']\<rparr>)) = Some f
         \<and> jget ''status'' f = Some (JStr ''DONE%20''))"
proof -
  let ?a = "[''q'' \<mapsto> '' My Query '', ''status'' \<mapsto> ''DONE%20'']"
  have a1: "?a ''q'' = Some '' My Query ''" by simp
  have a2: "query_int ?a ''limit'' 10 = Inr 10" by (simp add: query_int_def)
  have a3: "query_int ?a ''offset'' 0 = Inr 0" by (simp add: query_int_def)
  have a4: "?a ''status'' = Some ''DONE%20''" by simp
  have h: "status_code (app \<lparr>req_path = ''/search'', req_query = ?a\<rparr>) = 200"
    by (simp only: app_search_valid [OF a1 a2 a3] ok_def response.simps)
  from search_reflects_q_and_status [OF h] a1 a4 obtain f where
    "jget ''query'' (body (app \<lparr>req_path = ''/search'', req_query = ?a\<rparr>))
       = Some (JStr '' My Query '')"
    "jget ''filters'' (body (app \<lparr>req_path = ''/search'', req_query = ?a\<rparr>)) = Some f"
    "jget ''status'' f = Some (JStr ''DONE%20'')"
    by auto
  with h show ?thesis
    by blast
qed

text \<open>
  C9. When \<^verbatim>\<open>GET /search\<close> is called with \<^verbatim>\<open>status\<close> supplied as the empty string,
  the handler receives the empty string: \<^verbatim>\<open>filters.status\<close> is \<^verbatim>\<open>""\<close>, but the two
  result records carry the defaults \<^verbatim>\<open>"pending"\<close> and \<^verbatim>\<open>"in_progress"\<close>, so the
  \<^verbatim>\<open>results\<close> are those of a call without a status filter.
\<close>

theorem search_empty_status_falls_back:
  "(qs ''q'' = Some q \<and> qs ''status'' = Some [] \<and> query_int qs ''limit'' 10 = Inr limit
      \<and> query_int qs ''offset'' 0 = Inr offset \<longrightarrow>
      app \<lparr>req_path = ''/search'', req_query = qs\<rparr>
        = \<lparr>status_code = 200, body = search_tasks q limit offset (Some [])\<rparr>)
   \<and> (\<exists>f r1 r2.
          jget ''filters'' (search_tasks q limit offset (Some [])) = Some f
        \<and> jget ''status'' f = Some (JStr [])
        \<and> jget ''results'' (search_tasks q limit offset (Some [])) = Some (JArr [r1, r2])
        \<and> jget ''status'' r1 = Some (JStr ''pending'')
        \<and> jget ''status'' r2 = Some (JStr ''in_progress''))
   \<and> jget ''results'' (search_tasks q limit offset (Some []))
       = jget ''results'' (search_tasks q limit offset None)"
proof -
  have "app \<lparr>req_path = ''/search'', req_query = qs\<rparr>
        = \<lparr>status_code = 200, body = search_tasks q limit offset (Some [])\<rparr>"
    if "qs ''q'' = Some q" "qs ''status'' = Some []" "query_int qs ''limit'' 10 = Inr limit"
       "query_int qs ''offset'' 0 = Inr offset"
    using app_search_valid [OF that(1) that(3) that(4)] that(2) by (simp add: ok_def)
  moreover have "\<exists>f r1 r2.
          jget ''filters'' (search_tasks q limit offset (Some [])) = Some f
        \<and> jget ''status'' f = Some (JStr [])
        \<and> jget ''results'' (search_tasks q limit offset (Some [])) = Some (JArr [r1, r2])
        \<and> jget ''status'' r1 = Some (JStr ''pending'')
        \<and> jget ''status'' r2 = Some (JStr ''in_progress'')"
    by (simp add: search_tasks_def py_or_def json_of_opt_str_def)
  moreover have "jget ''results'' (search_tasks q limit offset (Some []))
       = jget ''results'' (search_tasks q limit offset None)"
    by (simp add: search_tasks_def py_or_def)
  ultimately show ?thesis
    by blast
qed


theorem search_empty_status_falls_back_witness:
  "[''q'' \<mapsto> ''test'', ''status'' \<mapsto> ([] :: string)] ''q'' = Some ''test''
   \<and> [''q'' \<mapsto> ''test'', ''status'' \<mapsto> ([] :: string)] ''status'' = Some []
   \<and> query_int [''q'' \<mapsto> ''test'', ''status'' \<mapsto> ([] :: string)] ''limit'' 10 = Inr 10
   \<and> query_int [''q'' \<mapsto> ''test'', ''status'' \<mapsto> ([] :: string)] ''offset'' 0 = Inr 0
   \<and> app \<lparr>req_path = ''/search'',
         req_query = [''q'' \<mapsto> ''test'', ''status'' \<mapsto> ([] :: string)]\<rparr>
       = \<lparr>status_code = 200, body = search_tasks ''test'' 10 0 (Some [])\<rparr>"
proof -
  let ?a = "[''q'' \<mapsto> ''test'', ''status'' \<mapsto> ([] :: string)]"
  have a1: "?a ''q'' = Some ''test''" by simp
  have a2: "?a ''status'' = Some []" by simp
  have a3: "query_int ?a ''limit'' 10 = Inr 10" by (simp add: query_int_def)
  have a4: "query_int ?a ''offset'' 0 = Inr 0" by (simp add: query_int_def)
  from search_empty_status_falls_back [of ?a "''test''" 10 0] a1 a2 a3 a4
  have "app \<lparr>req_path = ''/search'', req_query = ?a\<rparr>
       = \<lparr>status_code = 200, body = search_tasks ''test'' 10 0 (Some [])\<rparr>"
    by blast
  with a1 a2 a3 a4 show ?thesis
    by (intro conjI)
qed

end
